theory Spec2Isabelle
  imports Main "HOL-Library.Sublist"
begin

section \<open>JavaScript string operations used by the tool logic\<close>

text \<open>
  Strings are lists of 8-bit characters.  The operations below are the ones the
  TypeScript sources call on strings: \<^verbatim>\<open>trim\<close>, \<^verbatim>\<open>toLowerCase\<close>, \<^verbatim>\<open>includes\<close>,
  \<^verbatim>\<open>split\<close>, \<^verbatim>\<open>join\<close>, \<^verbatim>\<open>replace\<close> with a global one-character pattern, and the
  \<^verbatim>\<open>||\<close> chain on possibly absent strings.  A character stands for the code unit of
  the same number, U+0000 to U+00FF; white space and letter case are the ones
  JavaScript gives these code units.
\<close>

definition nl :: string where
  "nl = [CHR 0x0A]"

definition dq :: char where
  "dq = CHR 0x22"

definition sq :: string where
  "sq = [CHR 0x27]"

definition is_space :: "char \<Rightarrow> bool" where
  "is_space c =
     (c \<in> set [CHR 0x09, CHR 0x0A, CHR 0x0B, CHR 0x0C, CHR 0x0D, CHR 0x20, CHR 0xA0])"

definition trim :: "string \<Rightarrow> string" where
  "trim s = rev (dropWhile is_space (rev (dropWhile is_space s)))"

definition lower_char :: "char \<Rightarrow> char" where
  "lower_char c =
     (if (65::nat) \<le> of_char c \<and> of_char c \<le> (90::nat)
      then char_of (of_char c + (32::nat))
      else if (192::nat) \<le> of_char c \<and> of_char c \<le> (222::nat) \<and> of_char c \<noteq> (215::nat)
      then char_of (of_char c + (32::nat))
      else c)"

definition toLowerCase :: "string \<Rightarrow> string" where
  "toLowerCase s = map lower_char s"

definition js_includes :: "string \<Rightarrow> string \<Rightarrow> bool" where
  "js_includes s sub = sublist sub s"

fun split_on :: "char \<Rightarrow> string \<Rightarrow> string list" where
  "split_on c [] = [[]]"
| "split_on c (x # xs) =
     (if x = c then [] # split_on c xs
      else (case split_on c xs of [] \<Rightarrow> [[x]] | y # ys \<Rightarrow> (x # y) # ys))"

fun join :: "string \<Rightarrow> string list \<Rightarrow> string" where
  "join sep [] = []"
| "join sep [x] = x"
| "join sep (x # y # ys) = x @ sep @ join sep (y # ys)"

definition replace_all :: "char \<Rightarrow> string \<Rightarrow> string \<Rightarrow> string" where
  "replace_all c r s = concat (map (\<lambda>x. if x = c then r else [x]) s)"

text \<open>
  \<^verbatim>\<open>a || b\<close> on values that are a string or \<^verbatim>\<open>undefined\<close>: the left operand when it
  is truthy (present and non-empty), the right operand otherwise.
\<close>

definition truthy :: "string option \<Rightarrow> bool" where
  "truthy a = (case a of None \<Rightarrow> False | Some s \<Rightarrow> s \<noteq> [])"

definition js_or :: "string option \<Rightarrow> string option \<Rightarrow> string option" where
  "js_or a b = (if truthy a then a else b)"

definition or_string :: "string option \<Rightarrow> string \<Rightarrow> string" where
  "or_string a d = (case js_or a (Some d) of None \<Rightarrow> d | Some s \<Rightarrow> s)"

fun dec :: "nat \<Rightarrow> string" where
  "dec n = (if n < 10 then [''0123456789'' ! n]
            else dec (n div 10) @ [''0123456789'' ! (n mod 10)])"

section \<open>Data model of the reword tool\<close>

datatype BaseErrorCode = NOT_FOUND | VALIDATION_ERROR | INTERNAL_ERROR

text \<open>
  \<^verbatim>\<open>McpError\<close> and \<^verbatim>\<open>BaseErrorCode\<close> are imported from \<^verbatim>\<open>types-global/errors.js\<close>;
  the logic constructs an \<^verbatim>\<open>McpError\<close> from an error code and a message, and uses the
  three codes below.
\<close>

record McpError =
  err_code :: BaseErrorCode
  err_message :: string

text \<open>
  A value caught by \<^verbatim>\<open>catch (error: any)\<close>.  The handlers read only the properties
  \<^verbatim>\<open>stderr\<close>, \<^verbatim>\<open>stdout\<close> and \<^verbatim>\<open>message\<close>, any of which may be absent.
\<close>

record js_error =
  e_stderr :: "string option"
  e_stdout :: "string option"
  e_message :: "string option"

text \<open>
  An \<^verbatim>\<open>McpError\<close> thrown inside a \<^verbatim>\<open>try\<close> block, as the enclosing handler sees it:
  an \<^verbatim>\<open>Error\<close> whose \<^verbatim>\<open>message\<close> is the constructor's message, without
  \<^verbatim>\<open>stderr\<close> or \<^verbatim>\<open>stdout\<close>.
\<close>

definition thrown_McpError :: "McpError \<Rightarrow> js_error" where
  "thrown_McpError e = \<lparr>e_stderr = None, e_stdout = None, e_message = Some (err_message e)\<rparr>"

record exec_output =
  stdout :: string
  stderr :: string

record GitRewordInput =
  in_path :: "string option"
  in_commitHash :: "string option"
  in_newMessage :: string

record GitRewordResult =
  success :: bool
  message :: string
  originalMessage :: "string option"
  newMessage :: "string option"
  hash :: "string option"
  rebaseInstructions :: "string option"

section \<open>Effects\<close>

text \<open>
  The logic talks to the outside through \<^verbatim>\<open>child_process.exec\<close> (promisified: one
  command-line string, run by the shell), \<^verbatim>\<open>fs.writeFile\<close>, \<^verbatim>\<open>fs.unlink\<close>,
  \<^verbatim>\<open>Date.now\<close> and \<^verbatim>\<open>sanitization.sanitizePath\<close>.  They are parameters of the
  model, acting on a world \<open>'w\<close>.  Every call is recorded, in order, in a trace.
  Calls to the logger are not modelled.
\<close>

datatype effect =
  Exec string
| WriteFile string string
| Unlink string

record 'w env =
  sanitizePath :: "string \<Rightarrow> bool \<Rightarrow> McpError + string"
  exec :: "'w \<Rightarrow> string \<Rightarrow> 'w \<times> (js_error + exec_output)"
  writeFile :: "'w \<Rightarrow> string \<Rightarrow> string \<Rightarrow> 'w \<times> (js_error + unit)"
  unlink :: "'w \<Rightarrow> string \<Rightarrow> 'w \<times> (js_error + unit)"
  date_now :: "'w \<Rightarrow> nat"

record 'w st =
  world :: 'w
  trace :: "effect list"

definition execAsync :: "'w env \<Rightarrow> 'w st \<Rightarrow> string \<Rightarrow> 'w st \<times> (js_error + exec_output)" where
  "execAsync env s command =
     (let (w, r) = exec env (world s) command
      in (\<lparr>world = w, trace = trace s @ [Exec command]\<rparr>, r))"

definition fs_writeFile :: "'w env \<Rightarrow> 'w st \<Rightarrow> string \<Rightarrow> string \<Rightarrow> 'w st \<times> (js_error + unit)" where
  "fs_writeFile env s file content =
     (let (w, r) = writeFile env (world s) file content
      in (\<lparr>world = w, trace = trace s @ [WriteFile file content]\<rparr>, r))"

text \<open>\<^verbatim>\<open>fs.unlink(file).catch(() => {})\<close>: the outcome of the removal is discarded.\<close>

definition fs_unlink_quiet :: "'w env \<Rightarrow> 'w st \<Rightarrow> string \<Rightarrow> 'w st" where
  "fs_unlink_quiet env s file =
     (let (w, r) = unlink env (world s) file
      in \<lparr>world = w, trace = trace s @ [Unlink file]\<rparr>)"

section \<open>The reword logic (\<^verbatim>\<open>rewordGitCommit\<close>, first listing)\<close>

subsection \<open>Command lines\<close>

definition logCommand :: "string \<Rightarrow> string \<Rightarrow> string" where
  \<open>logCommand targetPath commitRef =
     ''git -C "'' @ targetPath @ ''" log -1 --pretty=format:%B '' @ commitRef\<close>

definition amendCommand :: "string \<Rightarrow> string \<Rightarrow> string" where
  \<open>amendCommand targetPath sanitizedNewMessage =
     ''git -C "'' @ targetPath @ ''" commit --amend -m "'' @ sanitizedNewMessage @ ''"''\<close>

definition revParseCommand :: "string \<Rightarrow> string \<Rightarrow> string" where
  \<open>revParseCommand targetPath commitRef =
     ''git -C "'' @ targetPath @ ''" rev-parse '' @ commitRef @ ''^''\<close>

definition confirmCommand :: "string \<Rightarrow> string" where
  \<open>confirmCommand targetPath =
     ''git -C "'' @ targetPath @ ''" log -1 --pretty=format:%H%n%B''\<close>

text \<open>\<^verbatim>\<open>input.newMessage.replace(/"/g, '\"')\<close>: in JavaScript the literal \<^verbatim>\<open>'\"'\<close> is the
  one-character string consisting of a double quote.\<close>

definition sanitizeNewMessage :: "string \<Rightarrow> string" where
  "sanitizeNewMessage m = replace_all dq [dq] m"

definition rebaseInstructionsText :: "string \<Rightarrow> string \<Rightarrow> string \<Rightarrow> string \<Rightarrow> string" where
  \<open>rebaseInstructionsText commitRef targetPath parentCommit sanitizedNewMessage =
     ''To reword commit '' @ commitRef @ '', run the following commands:'' @ nl @ nl @
     ''1. Start interactive rebase: git -C "'' @ targetPath @ ''" rebase -i '' @ parentCommit @ nl @
     ''2. In the editor, change 'pick' to 'reword' for commit '' @ commitRef @ nl @
     ''3. Save and close the editor'' @ nl @
     ''4. When the rebase stops for the reword, the commit message editor will open'' @ nl @
     ''5. Replace the message with: '' @ sanitizedNewMessage @ nl @
     ''6. Save and close the editor'' @ nl @
     ''7. The rebase will continue automatically'' @ nl @ nl @
     ''Alternatively, you can use this one-liner (but be careful):'' @ nl @
     ''echo '' @ sq @ sanitizedNewMessage @ sq @ '' > /tmp/new_message && git -C "'' @ targetPath @
     ''" rebase -i '' @ parentCommit @ '' --exec 'git commit --amend -F /tmp/new_message'' @ sq\<close>

subsection \<open>The body of \<^verbatim>\<open>rewordGitCommit\<close>\<close>

text \<open>\<^verbatim>\<open>input.path || context.getWorkingDirectory() || "."\<close>, the argument of
  \<^verbatim>\<open>sanitizePath\<close>.  The second parameter is what \<^verbatim>\<open>context.getWorkingDirectory()\<close>
  returns.\<close>

definition targetPathArg :: "GitRewordInput \<Rightarrow> string option \<Rightarrow> string" where
  "targetPathArg input workingDirectory =
     or_string (js_or (in_path input) workingDirectory) ''.''"

text \<open>\<^verbatim>\<open>input.commitHash || "HEAD"\<close>.\<close>

definition commitRefOf :: "GitRewordInput \<Rightarrow> string" where
  "commitRefOf input = or_string (in_commitHash input) ''HEAD''"

text \<open>The best-effort read of the original message: a failure is logged and the
  message stays empty.\<close>

definition readOriginalMessage :: "'w env \<Rightarrow> 'w st \<Rightarrow> string \<Rightarrow> string \<Rightarrow> 'w st \<times> string" where
  "readOriginalMessage env s targetPath commitRef =
     (case execAsync env s (logCommand targetPath commitRef) of
        (s1, Inr out) \<Rightarrow> (s1, trim (stdout out))
      | (s1, Inl err) \<Rightarrow> (s1, []))"

text \<open>The tip: \<^verbatim>\<open>git commit --amend\<close>, then the new hash and message are read back.\<close>

definition rewordedResult :: "string \<Rightarrow> string \<Rightarrow> GitRewordResult" where
  "rewordedResult originalMsg newLogStdout =
     (let parts = split_on (CHR 0x0A) (trim newLogStdout);
          newHash = (case parts of [] \<Rightarrow> None | h # rest \<Rightarrow> Some h);
          newCommitMessage = join nl (tl parts)
      in \<lparr>success = True,
          message = ''Commit message reworded successfully.'',
          originalMessage = Some originalMsg,
          newMessage = Some newCommitMessage,
          hash = newHash,
          rebaseInstructions = None\<rparr>)"

definition amendHead ::
  "'w env \<Rightarrow> 'w st \<Rightarrow> string \<Rightarrow> string \<Rightarrow> string \<Rightarrow> 'w st \<times> (js_error + GitRewordResult)" where
  "amendHead env s targetPath originalMsg sanitizedNewMessage =
     (case execAsync env s (amendCommand targetPath sanitizedNewMessage) of
        (s1, Inl err) \<Rightarrow> (s1, Inl err)
      | (s1, Inr out) \<Rightarrow>
          (case execAsync env s1 (confirmCommand targetPath) of
             (s2, Inl err) \<Rightarrow> (s2, Inl err)
           | (s2, Inr newLog) \<Rightarrow> (s2, Inr (rewordedResult originalMsg (stdout newLog)))))"

text \<open>Any other commit: the parent is resolved, a temporary message file is written
  and removed again, and the instructions for a manual rebase are returned.\<close>

definition parentNotFound :: "string \<Rightarrow> McpError" where
  "parentNotFound commitRef =
     \<lparr>err_code = VALIDATION_ERROR,
      err_message = ''Could not find parent commit for '' @ commitRef @
        ''. This might be the root commit or an invalid commit hash.''\<rparr>"

definition advisoryResult :: "string \<Rightarrow> string \<Rightarrow> string \<Rightarrow> string \<Rightarrow> string \<Rightarrow> GitRewordResult" where
  "advisoryResult commitRef targetPath parentCommit originalMsg sanitizedNewMessage =
     \<lparr>success = False,
      message = ''Rewording commit '' @ commitRef @ '' requires an interactive rebase.'',
      originalMessage = Some originalMsg,
      newMessage = Some sanitizedNewMessage,
      hash = Some commitRef,
      rebaseInstructions =
        Some (rebaseInstructionsText commitRef targetPath parentCommit sanitizedNewMessage)\<rparr>"

definition tempMessageFileOf :: "'w env \<Rightarrow> string \<Rightarrow> 'w \<Rightarrow> string" where
  "tempMessageFileOf env targetPath w = targetPath @ ''/.git-reword-message-'' @ dec (date_now env w)"

definition adviseRebase ::
  "'w env \<Rightarrow> 'w st \<Rightarrow> string \<Rightarrow> string \<Rightarrow> string \<Rightarrow> string \<Rightarrow> 'w st \<times> (js_error + GitRewordResult)" where
  "adviseRebase env s targetPath commitRef originalMsg sanitizedNewMessage =
     (case execAsync env s (revParseCommand targetPath commitRef) of
        (s1, Inl err) \<Rightarrow> (s1, Inl (thrown_McpError (parentNotFound commitRef)))
      | (s1, Inr out) \<Rightarrow>
          (let parentCommit = trim (stdout out);
               tempMessageFile = tempMessageFileOf env targetPath (world s1)
           in (case fs_writeFile env s1 tempMessageFile sanitizedNewMessage of
                 (s2, Inl err) \<Rightarrow> (fs_unlink_quiet env s2 tempMessageFile, Inl err)
               | (s2, Inr u) \<Rightarrow>
                   (fs_unlink_quiet env s2 tempMessageFile,
                    Inr (advisoryResult commitRef targetPath parentCommit originalMsg
                           sanitizedNewMessage)))))"

text \<open>The \<^verbatim>\<open>try\<close> block.\<close>

definition rewordTry ::
  "'w env \<Rightarrow> GitRewordInput \<Rightarrow> string \<Rightarrow> 'w st \<Rightarrow> 'w st \<times> (js_error + GitRewordResult)" where
  "rewordTry env input targetPath s =
     (let commitRef = commitRefOf input;
          (s1, originalMsg) = readOriginalMessage env s targetPath commitRef;
          sanitizedNewMessage = sanitizeNewMessage (in_newMessage input)
      in if commitRef = ''HEAD''
         then amendHead env s1 targetPath originalMsg sanitizedNewMessage
         else adviseRebase env s1 targetPath commitRef originalMsg sanitizedNewMessage)"

text \<open>The \<^verbatim>\<open>catch\<close> block: the caught error is turned into an \<^verbatim>\<open>McpError\<close>.\<close>

definition errorMessageOf :: "js_error \<Rightarrow> string" where
  "errorMessageOf err = or_string (js_or (js_or (e_stderr err) (e_stdout err)) (e_message err)) []"

definition rewordCatch :: "string \<Rightarrow> js_error \<Rightarrow> McpError" where
  "rewordCatch targetPath err =
     (let errorMessage = errorMessageOf err
      in if js_includes (toLowerCase errorMessage) ''not a git repository''
         then \<lparr>err_code = NOT_FOUND,
               err_message = ''Path is not a Git repository: '' @ targetPath\<rparr>
         else if js_includes errorMessage ''no changes''
         then \<lparr>err_code = VALIDATION_ERROR,
               err_message = ''No changes to commit. Ensure there are staged changes if trying to amend, or specify a commit hash to reword a specific commit.''\<rparr>
         else \<lparr>err_code = INTERNAL_ERROR,
               err_message = ''Failed to reword commit. Error: '' @ errorMessage\<rparr>)"

text \<open>The whole function.  \<^verbatim>\<open>sanitizePath\<close> is called before the \<^verbatim>\<open>try\<close> block, so
  an error it throws reaches the caller as it is.\<close>

definition rewordGitCommit ::
  "'w env \<Rightarrow> GitRewordInput \<Rightarrow> string option \<Rightarrow> 'w st \<Rightarrow> 'w st \<times> (McpError + GitRewordResult)" where
  "rewordGitCommit env input workingDirectory s =
     (case sanitizePath env (targetPathArg input workingDirectory) True of
        Inl e \<Rightarrow> (s, Inl e)
      | Inr targetPath \<Rightarrow>
          (case rewordTry env input targetPath s of
             (s1, Inl err) \<Rightarrow> (s1, Inl (rewordCatch targetPath err))
           | (s1, Inr r) \<Rightarrow> (s1, Inr r)))"

section \<open>The reword logic, second listing\<close>

text \<open>
  The second listing of \<^verbatim>\<open>rewordGitCommit\<close> calls \<^verbatim>\<open>sanitizePath\<close> without options,
  reads the original message only when a commit hash was given, and for a commit other
  than \<^verbatim>\<open>HEAD\<close> returns a short message without resolving the parent.
\<close>

definition pastCommitMessage :: "string \<Rightarrow> string" where
  \<open>pastCommitMessage commitRef =
     ''Rewording a specific past commit ('' @ commitRef @
     '') requires an interactive rebase. Please run 'git rebase -i '' @ commitRef @
     ''^' in your terminal, then change 'pick' to 'reword' for the commit.''\<close>

definition rewordTry_second ::
  "'w env \<Rightarrow> GitRewordInput \<Rightarrow> string \<Rightarrow> 'w st \<Rightarrow> 'w st \<times> (js_error + GitRewordResult)" where
  "rewordTry_second env input targetPath s =
     (let commitRef = commitRefOf input;
          (s1, originalMsg) =
             (if truthy (in_commitHash input)
              then readOriginalMessage env s targetPath commitRef else (s, []));
          sanitizedNewMessage = sanitizeNewMessage (in_newMessage input)
      in if truthy (in_commitHash input) \<and> commitRef \<noteq> ''HEAD''
         then (s1, Inr \<lparr>success = False, message = pastCommitMessage commitRef,
                        originalMessage = None, newMessage = None, hash = None,
                        rebaseInstructions = None\<rparr>)
         else amendHead env s1 targetPath originalMsg sanitizedNewMessage)"

definition rewordGitCommit_second ::
  "'w env \<Rightarrow> GitRewordInput \<Rightarrow> string option \<Rightarrow> 'w st \<Rightarrow> 'w st \<times> (McpError + GitRewordResult)" where
  "rewordGitCommit_second env input workingDirectory s =
     (case sanitizePath env (targetPathArg input workingDirectory) False of
        Inl e \<Rightarrow> (s, Inl e)
      | Inr targetPath \<Rightarrow>
          (case rewordTry_second env input targetPath s of
             (s1, Inl err) \<Rightarrow> (s1, Inl (rewordCatch targetPath err))
           | (s1, Inr r) \<Rightarrow> (s1, Inr r)))"

section \<open>The input schema and the registered tool\<close>

text \<open>
  \<^verbatim>\<open>GitRewordInputSchema\<close>: \<^verbatim>\<open>path\<close> is \<^verbatim>\<open>z.string().min(1).optional().default(".")\<close>,
  \<^verbatim>\<open>commitHash\<close> is \<^verbatim>\<open>z.string().min(1).optional()\<close> and \<^verbatim>\<open>newMessage\<close> is
  \<^verbatim>\<open>z.string().min(1)\<close>.  Parsing the arguments of a request gives the validated input,
  with the default filled in, or the names of the fields that failed.
\<close>

record RawArgs =
  raw_path :: "string option"
  raw_commitHash :: "string option"
  raw_newMessage :: "string option"

definition min1 :: "string \<Rightarrow> bool" where
  "min1 v = (1 \<le> length v)"

definition path_issues :: "RawArgs \<Rightarrow> string list" where
  "path_issues raw =
     (case raw_path raw of None \<Rightarrow> [] | Some v \<Rightarrow> if min1 v then [] else [''path''])"

definition commitHash_issues :: "RawArgs \<Rightarrow> string list" where
  "commitHash_issues raw =
     (case raw_commitHash raw of None \<Rightarrow> [] | Some v \<Rightarrow> if min1 v then [] else [''commitHash''])"

definition newMessage_issues :: "RawArgs \<Rightarrow> string list" where
  "newMessage_issues raw =
     (case raw_newMessage raw of None \<Rightarrow> [''newMessage'']
      | Some v \<Rightarrow> if min1 v then [] else [''newMessage''])"

definition GitRewordInputSchema :: "RawArgs \<Rightarrow> string list + GitRewordInput" where
  "GitRewordInputSchema raw =
     (let issues = path_issues raw @ commitHash_issues raw @ newMessage_issues raw
      in if issues \<noteq> [] then Inl issues
         else Inr \<lparr>in_path = Some (case raw_path raw of None \<Rightarrow> ''.'' | Some v \<Rightarrow> v),
                   in_commitHash = raw_commitHash raw,
                   in_newMessage = (case raw_newMessage raw of None \<Rightarrow> [] | Some v \<Rightarrow> v)\<rparr>)"

text \<open>
  The services the registration modules import: \<^verbatim>\<open>requestContextService\<close>,
  \<^verbatim>\<open>ErrorHandler.tryCatch\<close> (what it rethrows for a failure of the wrapped function)
  and the server's \<^verbatim>\<open>tool\<close> method, which stores a handler under a name and may throw.
  The description text and the schema shape that are passed along with the name are
  constants and are left out.
\<close>

record ('c, 'srv, 'h) services =
  createRequestContext :: "string \<Rightarrow> 'c option \<Rightarrow> 'c"
  handleToolError :: "McpError \<Rightarrow> McpError"
  handleRegistrationError :: "js_error \<Rightarrow> js_error"
  server_tool :: "'srv \<Rightarrow> string \<Rightarrow> 'h \<Rightarrow> 'srv \<times> (js_error + unit)"

datatype 'r CallToolResult = Content 'r

datatype tool_failure = InvalidArguments "string list" | Failed McpError

text \<open>The module state of a registration module: the two accessors, unset at load.\<close>

record 'c accessors =
  v_getWorkingDirectory :: "(string option \<Rightarrow> string option) option"
  v_getSessionId :: "('c \<Rightarrow> string option) option"

definition accessors_at_load :: "'c accessors" where
  "accessors_at_load = \<lparr>v_getWorkingDirectory = None, v_getSessionId = None\<rparr>"

definition initializeGitRewordStateAccessors ::
  "(string option \<Rightarrow> string option) \<Rightarrow> ('c \<Rightarrow> string option) \<Rightarrow> 'c accessors \<Rightarrow> 'c accessors" where
  "initializeGitRewordStateAccessors getWdFn getSidFn m =
     m\<lparr>v_getWorkingDirectory := Some getWdFn, v_getSessionId := Some getSidFn\<rparr>"

text \<open>The handler that \<^verbatim>\<open>registerGitRewordTool\<close> passes to \<^verbatim>\<open>server.tool\<close>.\<close>

definition gitRewordToolHandler ::
  "'w env \<Rightarrow> ('c, 'srv, 'h) services \<Rightarrow> (string option \<Rightarrow> string option) \<Rightarrow> ('c \<Rightarrow> string option) \<Rightarrow>
   GitRewordInput \<Rightarrow> 'c \<Rightarrow> 'w st \<Rightarrow> 'w st \<times> (tool_failure + GitRewordResult CallToolResult)" where
  "gitRewordToolHandler env svc getWd getSid validatedArgs callContext s =
     (let requestContext = createRequestContext svc ''tool:git_reword'' (Some callContext);
          sessionId = getSid requestContext
      in (case rewordGitCommit env validatedArgs (getWd sessionId) s of
            (s1, Inl e) \<Rightarrow> (s1, Inl (Failed (handleToolError svc e)))
          | (s1, Inr rewordResult) \<Rightarrow> (s1, Inr (Content rewordResult))))"

text \<open>A call of the registered tool: the arguments are validated against the schema,
  then the handler runs on the validated input.\<close>

definition git_reword_call ::
  "'w env \<Rightarrow> ('c, 'srv, 'h) services \<Rightarrow> (string option \<Rightarrow> string option) \<Rightarrow> ('c \<Rightarrow> string option) \<Rightarrow>
   RawArgs \<Rightarrow> 'c \<Rightarrow> 'w st \<Rightarrow> 'w st \<times> (tool_failure + GitRewordResult CallToolResult)" where
  "git_reword_call env svc getWd getSid raw callContext s =
     (case GitRewordInputSchema raw of
        Inl issues \<Rightarrow> (s, Inl (InvalidArguments issues))
      | Inr validatedArgs \<Rightarrow> gitRewordToolHandler env svc getWd getSid validatedArgs callContext s)"

definition not_initialized :: "string \<Rightarrow> js_error" where
  "not_initialized tool =
     \<lparr>e_stderr = None, e_stdout = None,
      e_message = Some (''State accessors for '' @ tool @ '' must be initialized before registration.'')\<rparr>"

definition register_with ::
  "('c, 'srv, 'h) services \<Rightarrow> string \<Rightarrow> 'h \<Rightarrow> 'srv \<Rightarrow> 'srv \<times> (js_error + unit)" where
  "register_with svc name handler server =
     (case server_tool svc server name handler of
        (server1, Inl e) \<Rightarrow> (server1, Inl (handleRegistrationError svc e))
      | (server1, Inr u) \<Rightarrow> (server1, Inr u))"

text \<open>\<^verbatim>\<open>registerGitRewordTool\<close>; \<open>handler\<close> stands for the closure it passes to
  \<^verbatim>\<open>server.tool\<close>, whose body is \<open>gitRewordToolHandler\<close>.\<close>

definition registerGitRewordTool ::
  "('c, 'srv, 'h) services \<Rightarrow> 'h \<Rightarrow> 'c accessors \<Rightarrow> 'srv \<Rightarrow> 'srv \<times> (js_error + unit)" where
  "registerGitRewordTool svc handler m server =
     (if v_getWorkingDirectory m = None \<or> v_getSessionId m = None
      then (server, Inl (not_initialized ''git_reword''))
      else register_with svc ''git_reword'' handler server)"

section \<open>The stash tool registration\<close>

datatype StashMode = StashList | StashSave | StashApply | StashPop | StashDrop

definition mode_name :: "StashMode \<Rightarrow> string" where
  "mode_name m = (case m of StashList \<Rightarrow> ''list'' | StashSave \<Rightarrow> ''save''
     | StashApply \<Rightarrow> ''apply'' | StashPop \<Rightarrow> ''pop'' | StashDrop \<Rightarrow> ''drop'')"

text \<open>\<^verbatim>\<open>GitStashInput\<close> and \<^verbatim>\<open>GitStashResult\<close> are declared in the stash logic module.
  Of the input the registration module reads the \<^verbatim>\<open>mode\<close>; the result is a type
  parameter \<open>'r\<close> of the handler, which reads it for logging only.\<close>

record GitStashInput =
  stash_mode :: StashMode

definition initializeGitStashStateAccessors ::
  "(string option \<Rightarrow> string option) \<Rightarrow> ('c \<Rightarrow> string option) \<Rightarrow> 'c accessors \<Rightarrow> 'c accessors" where
  "initializeGitStashStateAccessors getWdFn getSidFn m =
     m\<lparr>v_getWorkingDirectory := Some getWdFn, v_getSessionId := Some getSidFn\<rparr>"

text \<open>The handler that \<^verbatim>\<open>registerGitStashTool\<close> passes to \<^verbatim>\<open>server.tool\<close>.  The function
  \<^verbatim>\<open>gitStashLogic\<close> it calls is imported from the logic module and is a parameter here.\<close>

definition gitStashToolHandler ::
  "(GitStashInput \<Rightarrow> string option \<Rightarrow> 's \<Rightarrow> 's \<times> (McpError + 'r)) \<Rightarrow>
   ('c, 'srv, 'h) services \<Rightarrow> (string option \<Rightarrow> string option) \<Rightarrow> ('c \<Rightarrow> string option) \<Rightarrow>
   GitStashInput \<Rightarrow> 'c \<Rightarrow> 's \<Rightarrow> 's \<times> (tool_failure + 'r CallToolResult)" where
  "gitStashToolHandler gitStashLogic svc getWd getSid toolInput callContext s =
     (let requestContext =
            createRequestContext svc (''tool:git_stash:'' @ mode_name (stash_mode toolInput))
              (Some callContext);
          sessionId = getSid requestContext
      in (case gitStashLogic toolInput (getWd sessionId) s of
            (s1, Inl e) \<Rightarrow> (s1, Inl (Failed (handleToolError svc e)))
          | (s1, Inr stashResult) \<Rightarrow> (s1, Inr (Content stashResult))))"

definition registerGitStashTool ::
  "('c, 'srv, 'h) services \<Rightarrow> 'h \<Rightarrow> 'c accessors \<Rightarrow> 'srv \<Rightarrow> 'srv \<times> (js_error + unit)" where
  "registerGitStashTool svc handler m server =
     (if v_getWorkingDirectory m = None \<or> v_getSessionId m = None
      then (server, Inl (not_initialized ''git_stash''))
      else register_with svc ''git_stash'' handler server)"

section \<open>Concrete environments\<close>

text \<open>
  A small world for running the logic on concrete inputs.  The world counts the
  commits created so far.  Paths are accepted as they are; a command line is answered
  by a script, and a command line that contains \<^verbatim>\<open>commit --amend\<close> creates a commit, as
  the shell runs every command of the line it is given.
\<close>

definition scripted_env :: "(string \<Rightarrow> js_error + exec_output) \<Rightarrow> (js_error + unit) \<Rightarrow> nat env" where
  "scripted_env script written =
     \<lparr>sanitizePath = (\<lambda>p allowAbsolute. Inr p),
      exec = (\<lambda>w command. (if js_includes command ''commit --amend'' then Suc w else w, script command)),
      writeFile = (\<lambda>w file content. (w, written)),
      unlink = (\<lambda>w file. (w, Inr ())),
      date_now = (\<lambda>w. 0)\<rparr>"

definition failure :: "string \<Rightarrow> string \<Rightarrow> js_error" where
  "failure err out = \<lparr>e_stderr = Some err, e_stdout = Some out, e_message = Some ''Command failed''\<rparr>"

definition prints :: "string \<Rightarrow> js_error + exec_output" where
  "prints out = Inr \<lparr>stdout = out, stderr = []\<rparr>"

definition start :: "nat st" where
  "start = \<lparr>world = 0, trace = []\<rparr>"

text \<open>Every command prints a hash.\<close>

definition all_succeed :: "string \<Rightarrow> js_error + exec_output" where
  "all_succeed command = prints ''1a2b3c4''"

text \<open>Every command fails the way git does for an unknown revision.\<close>

definition all_fail :: "string \<Rightarrow> js_error + exec_output" where
  "all_fail command = Inl (failure ''fatal: bad revision'' [])"

text \<open>The read of the original message fails, every other command succeeds.\<close>

definition read_fails :: "string \<Rightarrow> js_error + exec_output" where
  "read_fails command =
     (if js_includes command ''--pretty=format:%B '' then Inl (failure ''fatal: bad object'' [])
      else prints ''1a2b3c4'')"

text \<open>The amend prints \<^verbatim>\<open>No changes\<close> and fails; every other command succeeds.\<close>

definition amend_no_changes :: "string \<Rightarrow> js_error + exec_output" where
  "amend_no_changes command =
     (if js_includes command ''commit --amend'' then Inl (failure [] (''No changes'' @ nl))
      else prints ''1a2b3c4'')"

text \<open>What \<^verbatim>\<open>fs.writeFile\<close> throws in a directory that cannot be written.\<close>

definition denied :: js_error where
  "denied = \<lparr>e_stderr = None, e_stdout = None, e_message = Some ''EACCES: permission denied''\<rparr>"

definition request :: "string option \<Rightarrow> string option \<Rightarrow> string \<Rightarrow> GitRewordInput" where
  "request p h m = \<lparr>in_path = p, in_commitHash = h, in_newMessage = m\<rparr>"

text \<open>Registration services over a server that is the list of the registered tool
  names; request contexts and handlers carry no information.\<close>

definition list_services :: "(unit, string list, unit) services" where
  "list_services =
     \<lparr>createRequestContext = (\<lambda>operation parent. ()),
      handleToolError = (\<lambda>e. e),
      handleRegistrationError = (\<lambda>e. e),
      server_tool = (\<lambda>server name handler. (server @ [name], Inr ()))\<rparr>"

section \<open>Notions used in the statements\<close>

text \<open>The common beginning of every command line the logic builds.\<close>

definition gitPrefix :: "string \<Rightarrow> string" where
  \<open>gitPrefix targetPath = ''git -C "'' @ targetPath @ ''" ''\<close>

text \<open>The environment that answers one command in one world differently and is
  otherwise unchanged.\<close>

definition answering :: "'w env \<Rightarrow> 'w \<Rightarrow> string \<Rightarrow> 'w \<times> (js_error + exec_output) \<Rightarrow> 'w env" where
  "answering env w command answer =
     env\<lparr>exec := (\<lambda>v c. if v = w \<and> c = command then answer else exec env v c)\<rparr>"

text \<open>The overall outcome of a call: the error code of the error thrown, or the success
  flag of the result returned.\<close>

definition outcome :: "McpError + GitRewordResult \<Rightarrow> BaseErrorCode + bool" where
  "outcome r = (case r of Inl e \<Rightarrow> Inl (err_code e) | Inr g \<Rightarrow> Inr (success g))"

definition with_original :: "string \<Rightarrow> js_error + GitRewordResult \<Rightarrow> js_error + GitRewordResult" where
  "with_original om r = (case r of Inl e \<Rightarrow> Inl e | Inr g \<Rightarrow> Inr (g\<lparr>originalMessage := Some om\<rparr>))"

section \<open>Basic facts\<close>

lemma sanitizeNewMessage_same: "sanitizeNewMessage m = m"
  by (induction m) (simp_all add: sanitizeNewMessage_def replace_all_def)

lemma js_includes_iff: "js_includes s sub \<longleftrightarrow> (\<exists>a b. s = a @ sub @ b)"
  by (simp add: js_includes_def sublist_def)

lemma commitRefOf_given:
  "in_commitHash input = Some ref \<Longrightarrow> ref \<noteq> [] \<Longrightarrow> commitRefOf input = ref"
  by (simp add: commitRefOf_def or_string_def js_or_def truthy_def)

lemma snd_rewordGitCommit:
  "sanitizePath env (targetPathArg input wd) True = Inr tp \<Longrightarrow>
   snd (rewordGitCommit env input wd s) =
     (case snd (rewordTry env input tp s) of Inl err \<Rightarrow> Inl (rewordCatch tp err) | Inr r \<Rightarrow> Inr r)"
  by (simp add: rewordGitCommit_def split: prod.splits sum.splits)

lemma fst_rewordGitCommit:
  "sanitizePath env (targetPathArg input wd) True = Inr tp \<Longrightarrow>
   fst (rewordGitCommit env input wd s) = fst (rewordTry env input tp s)"
  by (simp add: rewordGitCommit_def split: prod.splits sum.splits)

lemma rewordTry_non_tip:
  "commitRefOf input \<noteq> ''HEAD'' \<Longrightarrow>
   rewordTry env input tp s =
     adviseRebase env (fst (readOriginalMessage env s tp (commitRefOf input))) tp (commitRefOf input)
       (snd (readOriginalMessage env s tp (commitRefOf input))) (in_newMessage input)"
  by (simp add: rewordTry_def sanitizeNewMessage_same Let_def case_prod_beta)

lemma rewordTry_tip:
  "commitRefOf input = ''HEAD'' \<Longrightarrow>
   rewordTry env input tp s =
     amendHead env (fst (readOriginalMessage env s tp ''HEAD'')) tp
       (snd (readOriginalMessage env s tp ''HEAD'')) (in_newMessage input)"
  by (simp add: rewordTry_def sanitizeNewMessage_same Let_def case_prod_beta)

lemma world_readOriginalMessage:
  "world (fst (readOriginalMessage env s tp ref)) = fst (exec env (world s) (logCommand tp ref))"
  by (simp add: readOriginalMessage_def execAsync_def split: prod.splits sum.splits)

section \<open>The advisory result for a commit other than the tip\<close>

lemma instructions_mention:
  "js_includes (rebaseInstructionsText ref tp parent msg) ref"
  "js_includes (rebaseInstructionsText ref tp parent msg) msg"
  "rebaseInstructionsText ref tp parent msg \<noteq> []"
proof -
  show "js_includes (rebaseInstructionsText ref tp parent msg) ref"
    unfolding js_includes_iff rebaseInstructionsText_def
    by (rule exI[of _ "''To reword commit ''"]) (rule exI, simp)
  show "js_includes (rebaseInstructionsText ref tp parent msg) msg"
    unfolding js_includes_iff rebaseInstructionsText_def
    apply (rule exI[of _ "''To reword commit '' @ ref @ '', run the following commands:'' @ nl @ nl @
     ''1. Start interactive rebase: git -C '' @ [dq] @ tp @ [dq] @ '' rebase -i '' @ parent @ nl @
     ''2. In the editor, change '' @ sq @ ''pick'' @ sq @ '' to '' @ sq @ ''reword'' @ sq @ '' for commit '' @ ref @ nl @
     ''3. Save and close the editor'' @ nl @
     ''4. When the rebase stops for the reword, the commit message editor will open'' @ nl @
     ''5. Replace the message with: ''"])
    apply (rule exI)
    apply (simp add: dq_def sq_def)
    done
  show "rebaseInstructionsText ref tp parent msg \<noteq> []"
    by (simp add: rebaseInstructionsText_def)
qed

lemma adviseRebase_resolved:
  assumes "exec env (world s) (revParseCommand tp ref) = (w2, Inr out)"
    and "writeFile env w2 (tempMessageFileOf env tp w2) msg = (w3, Inr ())"
  shows "snd (adviseRebase env s tp ref om msg) =
     Inr (advisoryResult ref tp (trim (stdout out)) om msg)"
  using assms
  by (simp add: adviseRebase_def execAsync_def fs_writeFile_def fs_unlink_quiet_def Let_def
      split: prod.splits)

text \<open>The second listing returns, for a commit other than the tip, only a short
  message that names the reference; it resolves no parent and gives no instructions.\<close>

lemma second_listing_non_tip:
  assumes sp: "sanitizePath env (targetPathArg input wd) False = Inr tp"
    and given: "in_commitHash input = Some ref" "ref \<noteq> []" "ref \<noteq> ''HEAD''"
  shows "snd (rewordGitCommit_second env input wd s) =
           Inr \<lparr>success = False, message = pastCommitMessage ref, originalMessage = None,
                newMessage = None, hash = None, rebaseInstructions = None\<rparr>"
    and "js_includes (pastCommitMessage ref) ref"
proof -
  have ref: "commitRefOf input = ref" using given by (simp add: commitRefOf_given)
  show "snd (rewordGitCommit_second env input wd s) =
           Inr \<lparr>success = False, message = pastCommitMessage ref, originalMessage = None,
                newMessage = None, hash = None, rebaseInstructions = None\<rparr>"
    using sp ref given
    by (simp add: rewordGitCommit_second_def rewordTry_second_def truthy_def Let_def
        split: prod.splits)
  show "js_includes (pastCommitMessage ref) ref"
    unfolding js_includes_iff pastCommitMessage_def
    by (rule exI[of _ "''Rewording a specific past commit (''"]) (rule exI, simp)
qed

text \<open>
  Claim C2, as stated, fails: the parent of \<^verbatim>\<open>abc123\<close> resolves, but the temporary
  message file cannot be written, and the operation throws an internal error instead of
  returning the advisory result.
\<close>

theorem c2_write_failure_counterexample:
  "snd (exec (scripted_env all_succeed (Inl denied)) 0 (revParseCommand ''/repo'' ''abc123''))
     = prints ''1a2b3c4'' \<and>
   snd (rewordGitCommit (scripted_env all_succeed (Inl denied))
          (request (Some ''/repo'') (Some ''abc123'') ''new text'') None start)
     = Inl \<lparr>err_code = INTERNAL_ERROR,
            err_message = ''Failed to reword commit. Error: EACCES: permission denied''\<rparr>"
  by code_simp

text \<open>
  Claim C2, amended: for a reword request whose commit reference \<open>ref\<close> is given and is
  not \<^verbatim>\<open>HEAD\<close>, if the path is accepted, the parent commit resolves (the \<^verbatim>\<open>rev-parse\<close>
  command succeeds after the best-effort read) and the temporary message file can be
  written, then the operation returns a result (no error is thrown) with
  \<^verbatim>\<open>success = false\<close> and non-empty rebase instructions that contain both the requested
  reference and the requested new message.
\<close>

theorem c2_advisory_result:
  assumes sp: "sanitizePath env (targetPathArg input wd) True = Inr tp"
    and given: "in_commitHash input = Some ref" "ref \<noteq> []" "ref \<noteq> ''HEAD''"
    and rd: "exec env (world s) (logCommand tp ref) = (w1, r1)"
    and parent: "exec env w1 (revParseCommand tp ref) = (w2, Inr out)"
    and wr: "writeFile env w2 (tempMessageFileOf env tp w2) (in_newMessage input) = (w3, Inr ())"
  shows "\<exists>r instr. snd (rewordGitCommit env input wd s) = Inr r \<and> \<not> success r \<and>
           rebaseInstructions r = Some instr \<and> instr \<noteq> [] \<and>
           js_includes instr ref \<and> js_includes instr (in_newMessage input)"
proof -
  have ref: "commitRefOf input = ref" using given by (simp add: commitRefOf_given)
  define s1 where "s1 = fst (readOriginalMessage env s tp ref)"
  define om where "om = snd (readOriginalMessage env s tp ref)"
  have w: "world s1 = w1" using world_readOriginalMessage[of env s tp ref] rd by (simp add: s1_def)
  have "snd (adviseRebase env s1 tp ref om (in_newMessage input)) =
     Inr (advisoryResult ref tp (trim (stdout out)) om (in_newMessage input))"
    using adviseRebase_resolved[of env s1 tp ref w2 out "in_newMessage input" w3 om] parent wr w
    by simp
  then have "snd (rewordGitCommit env input wd s) =
     Inr (advisoryResult ref tp (trim (stdout out)) om (in_newMessage input))"
    using ref given(3) by (simp add: snd_rewordGitCommit[OF sp] rewordTry_non_tip s1_def om_def)
  then show ?thesis using instructions_mention by (simp add: advisoryResult_def)
qed

theorem c2_advisory_result_witness:
  "\<exists>r instr.
     snd (rewordGitCommit (scripted_env all_succeed (Inr ()))
            (request (Some ''/repo'') (Some ''abc123'') ''new text'') None start) = Inr r \<and>
     \<not> success r \<and> rebaseInstructions r = Some instr \<and> instr \<noteq> [] \<and>
     js_includes instr ''abc123'' \<and> js_includes instr ''new text''"
proof -
  let ?env = "scripted_env all_succeed (Inr ())"
  let ?input = "request (Some ''/repo'') (Some ''abc123'') ''new text''"
  have sp: "sanitizePath ?env (targetPathArg ?input None) True = Inr ''/repo''"
    by code_simp
  have given: "in_commitHash ?input = Some ''abc123''" "''abc123'' \<noteq> []" "''abc123'' \<noteq> ''HEAD''"
    by (simp_all add: request_def)
  have rd: "exec ?env (world start) (logCommand ''/repo'' ''abc123'') = (0, prints ''1a2b3c4'')"
    by code_simp
  have parent: "exec ?env 0 (revParseCommand ''/repo'' ''abc123'')
                  = (0, Inr \<lparr>stdout = ''1a2b3c4'', stderr = []\<rparr>)"
    by code_simp
  have wr: "writeFile ?env 0 (tempMessageFileOf ?env ''/repo'' 0) (in_newMessage ?input) = (0, Inr ())"
    by (simp add: scripted_env_def)
  have msg: "in_newMessage ?input = ''new text''"
    by (simp add: request_def)
  show ?thesis
    using c2_advisory_result[OF sp given rd parent wr] msg by simp
qed

section \<open>The commands the logic runs\<close>

lemma rewordTry_cases:
  "rewordTry env input tp s =
    (if commitRefOf input = ''HEAD''
     then amendHead env (fst (readOriginalMessage env s tp (commitRefOf input))) tp
       (snd (readOriginalMessage env s tp (commitRefOf input))) (in_newMessage input)
     else adviseRebase env (fst (readOriginalMessage env s tp (commitRefOf input))) tp (commitRefOf input)
       (snd (readOriginalMessage env s tp (commitRefOf input))) (in_newMessage input))"
  by (simp add: rewordTry_def sanitizeNewMessage_same Let_def case_prod_beta)

lemma trace_read:
  "trace (fst (readOriginalMessage env s tp ref)) = trace s @ [Exec (logCommand tp ref)]"
  by (simp add: readOriginalMessage_def execAsync_def split: prod.splits sum.splits)

lemma trace_amendHead_cases:
  "trace (fst (amendHead env s tp om msg)) = trace s @ [Exec (amendCommand tp msg)] \<or>
   trace (fst (amendHead env s tp om msg)) =
     trace s @ [Exec (amendCommand tp msg), Exec (confirmCommand tp)]"
proof (cases "exec env (world s) (amendCommand tp msg)")
  case (Pair w1 r)
  show ?thesis
  proof (cases r)
    case (Inl e)
    with Pair show ?thesis by (simp add: amendHead_def execAsync_def)
  next
    case (Inr out)
    obtain w2 r2 where c: "exec env w1 (confirmCommand tp) = (w2, r2)" by fastforce
    with Pair Inr show ?thesis
      by (cases r2) (simp_all add: amendHead_def execAsync_def)
  qed
qed

lemma trace_adviseRebase_cases:
  "trace (fst (adviseRebase env s tp ref om msg)) = trace s @ [Exec (revParseCommand tp ref)] \<or>
   (\<exists>file. trace (fst (adviseRebase env s tp ref om msg)) =
      trace s @ [Exec (revParseCommand tp ref), WriteFile file msg, Unlink file])"
proof (cases "exec env (world s) (revParseCommand tp ref)")
  case (Pair w1 r)
  show ?thesis
  proof (cases r)
    case (Inl e)
    with Pair show ?thesis by (simp add: adviseRebase_def execAsync_def)
  next
    case (Inr out)
    obtain w2 r2 where c: "writeFile env w1 (tempMessageFileOf env tp w1) msg = (w2, r2)"
      by fastforce
    obtain w3 r3 where d: "unlink env w2 (tempMessageFileOf env tp w1) = (w3, r3)"
      by fastforce
    with c Pair Inr show ?thesis
      by (cases r2)
        (simp_all add: adviseRebase_def execAsync_def fs_writeFile_def fs_unlink_quiet_def Let_def)
  qed
qed

lemma command_lines:
  "logCommand tp ref = gitPrefix tp @ ''log -1 --pretty=format:%B '' @ ref"
  \<open>amendCommand tp msg = gitPrefix tp @ ''commit --amend -m "'' @ msg @ ''"''\<close>
  "revParseCommand tp ref = gitPrefix tp @ ''rev-parse '' @ ref @ ''^''"
  "confirmCommand tp = gitPrefix tp @ ''log -1 --pretty=format:%H%n%B''"
  by (simp_all add: logCommand_def amendCommand_def revParseCommand_def confirmCommand_def
      gitPrefix_def)

lemma execs_rewordTry:
  assumes "Exec c \<in> set (trace (fst (rewordTry env input tp \<lparr>world = w, trace = []\<rparr>)))"
  shows "c \<in> {logCommand tp (commitRefOf input), amendCommand tp (in_newMessage input),
              confirmCommand tp, revParseCommand tp (commitRefOf input)}"
proof (cases "commitRefOf input = ''HEAD''")
  case True
  then show ?thesis
    using assms
      trace_amendHead_cases[of env "fst (readOriginalMessage env \<lparr>world = w, trace = []\<rparr> tp ''HEAD'')"
        tp "snd (readOriginalMessage env \<lparr>world = w, trace = []\<rparr> tp ''HEAD'')" "in_newMessage input"]
    by (auto simp add: rewordTry_cases trace_read)
next
  case False
  then show ?thesis
    using assms
      trace_adviseRebase_cases[of env
        "fst (readOriginalMessage env \<lparr>world = w, trace = []\<rparr> tp (commitRefOf input))" tp
        "commitRefOf input"
        "snd (readOriginalMessage env \<lparr>world = w, trace = []\<rparr> tp (commitRefOf input))"
        "in_newMessage input"]
    by (auto simp add: rewordTry_cases trace_read)
qed

text \<open>For a commit other than the tip the logic itself runs the \<^verbatim>\<open>log\<close> and the
  \<^verbatim>\<open>rev-parse\<close> command line and no other.\<close>

lemma execs_non_tip:
  assumes "commitRefOf input \<noteq> ''HEAD''"
    and "Exec c \<in> set (trace (fst (rewordTry env input tp \<lparr>world = w, trace = []\<rparr>)))"
  shows "c = logCommand tp (commitRefOf input) \<or> c = revParseCommand tp (commitRefOf input)"
  using assms
    trace_adviseRebase_cases[of env
      "fst (readOriginalMessage env \<lparr>world = w, trace = []\<rparr> tp (commitRefOf input))" tp
      "commitRefOf input"
      "snd (readOriginalMessage env \<lparr>world = w, trace = []\<rparr> tp (commitRefOf input))"
      "in_newMessage input"]
  by (auto simp add: rewordTry_cases trace_read)

text \<open>
  Claim C1, as stated, fails: git is not given an argument vector.  The first
  invocation for the reference \<^verbatim>\<open>abc123\<close> is one command-line string for the shell,
  and the reference supplied by the caller is concatenated into it.
\<close>

theorem c1_command_string_counterexample:
  \<open>Exec (''git -C "/repo" log -1 --pretty=format:%B '' @ ''abc123'')
     \<in> set (trace (fst (rewordGitCommit (scripted_env all_succeed (Inr ()))
                 (request (Some ''/repo'') (Some ''abc123'') ''new text'') None start)))\<close>
  by code_simp

text \<open>
  Claim C1, amended: every invocation of the git subprocess by \<^verbatim>\<open>rewordGitCommit\<close> is a
  single command-line string passed to \<^verbatim>\<open>exec\<close>, and that string begins with
  \<^verbatim>\<open>git -C "<target path>" \<close>, where the target path is what \<^verbatim>\<open>sanitizePath\<close>
  returned; no invocation happens when \<^verbatim>\<open>sanitizePath\<close> rejects the path.
\<close>

theorem c1_command_lines:
  assumes "Exec c \<in> set (trace (fst (rewordGitCommit env input wd \<lparr>world = w, trace = []\<rparr>)))"
  shows "\<exists>tp rest. sanitizePath env (targetPathArg input wd) True = Inr tp \<and>
           c = gitPrefix tp @ rest"
proof (cases "sanitizePath env (targetPathArg input wd) True")
  case (Inl e)
  with assms show ?thesis by (simp add: rewordGitCommit_def)
next
  case (Inr tp)
  from assms have "Exec c \<in> set (trace (fst (rewordTry env input tp \<lparr>world = w, trace = []\<rparr>)))"
    by (simp add: fst_rewordGitCommit[OF Inr])
  from execs_rewordTry[OF this] have "\<exists>rest. c = gitPrefix tp @ rest"
    by (auto simp add: command_lines)
  with Inr show ?thesis by simp
qed

theorem c1_command_lines_witness:
  "\<exists>tp rest. sanitizePath (scripted_env all_succeed (Inr ()))
        (targetPathArg (request (Some ''/repo'') None ''new text'') None) True = Inr tp \<and>
      amendCommand ''/repo'' ''new text'' = gitPrefix tp @ rest"
proof -
  have "Exec (amendCommand ''/repo'' ''new text'')
     \<in> set (trace (fst (rewordGitCommit (scripted_env all_succeed (Inr ()))
                 (request (Some ''/repo'') None ''new text'') None \<lparr>world = 0, trace = []\<rparr>)))"
    by code_simp
  from c1_command_lines[OF this] show ?thesis .
qed

section \<open>The best-effort read of the original message\<close>

lemma commands_differ:
  "amendCommand tp msg \<noteq> logCommand tp ref"
  "confirmCommand tp \<noteq> logCommand tp ref"
  "revParseCommand tp ref' \<noteq> logCommand tp ref"
  by (simp_all add: amendCommand_def confirmCommand_def revParseCommand_def logCommand_def)

lemma execAsync_answering:
  "c \<noteq> command \<Longrightarrow> execAsync (answering env w command a) s c = execAsync env s c"
  by (simp add: execAsync_def answering_def)

lemma fs_answering:
  "fs_writeFile (answering env w command a) = fs_writeFile env"
  "fs_unlink_quiet (answering env w command a) = fs_unlink_quiet env"
  "tempMessageFileOf (answering env w command a) = tempMessageFileOf env"
  "sanitizePath (answering env w command a) = sanitizePath env"
  by (simp_all add: fun_eq_iff fs_writeFile_def fs_unlink_quiet_def answering_def
      tempMessageFileOf_def)

lemma amendHead_answering:
  "amendHead (answering env w (logCommand tp ref) a) s tp om msg = amendHead env s tp om msg"
  unfolding amendHead_def
  by (auto simp: execAsync_answering commands_differ split: prod.splits sum.splits)

lemma adviseRebase_answering:
  "adviseRebase (answering env w (logCommand tp ref) a) s tp ref' om msg =
   adviseRebase env s tp ref' om msg"
  unfolding adviseRebase_def fs_answering
  by (auto simp: execAsync_answering commands_differ split: prod.splits sum.splits)

lemma result_original:
  "(rewordedResult om' out)\<lparr>originalMessage := Some om\<rparr> = rewordedResult om out"
  "(advisoryResult ref tp parent om' msg)\<lparr>originalMessage := Some om\<rparr> =
   advisoryResult ref tp parent om msg"
  by (simp_all add: rewordedResult_def advisoryResult_def Let_def)

lemma amendHead_original:
  "snd (amendHead env s tp om msg) = with_original om (snd (amendHead env s tp om' msg))"
proof (cases "execAsync env s (amendCommand tp msg)")
  case (Pair s1 r)
  show ?thesis
  proof (cases r)
    case (Inl e)
    with Pair show ?thesis by (simp add: amendHead_def with_original_def)
  next
    case (Inr out)
    obtain s2 r2 where c: "execAsync env s1 (confirmCommand tp) = (s2, r2)" by fastforce
    with Pair Inr show ?thesis
      by (cases r2) (simp_all add: amendHead_def with_original_def result_original)
  qed
qed

lemma adviseRebase_original:
  "snd (adviseRebase env s tp ref om msg) =
   with_original om (snd (adviseRebase env s tp ref om' msg))"
proof (cases "execAsync env s (revParseCommand tp ref)")
  case (Pair s1 r)
  show ?thesis
  proof (cases r)
    case (Inl e)
    with Pair show ?thesis by (simp add: adviseRebase_def with_original_def)
  next
    case (Inr out)
    obtain s2 r2 where c: "fs_writeFile env s1 (tempMessageFileOf env tp (world s1)) msg = (s2, r2)"
      by fastforce
    with Pair Inr show ?thesis
      by (cases r2) (simp_all add: adviseRebase_def with_original_def result_original)
  qed
qed

lemma read_failed:
  "exec env w (logCommand tp ref) = (w1, Inl e) \<Longrightarrow>
   readOriginalMessage env \<lparr>world = w, trace = t\<rparr> tp ref =
     (\<lparr>world = w1, trace = t @ [Exec (logCommand tp ref)]\<rparr>, [])"
  by (simp add: readOriginalMessage_def execAsync_def)

lemma read_answered:
  "readOriginalMessage (answering env w (logCommand tp ref) (w1, Inr out)) \<lparr>world = w, trace = t\<rparr> tp ref
     = (\<lparr>world = w1, trace = t @ [Exec (logCommand tp ref)]\<rparr>, trim (stdout out))"
  by (simp add: readOriginalMessage_def execAsync_def answering_def)

lemma trace_amendHead:
  "\<exists>rest. trace (fst (amendHead env s tp om msg)) = trace s @ Exec (amendCommand tp msg) # rest"
  using trace_amendHead_cases[of env s tp om msg] by auto

lemma trace_adviseRebase:
  "\<exists>rest. trace (fst (adviseRebase env s tp ref om msg)) =
     trace s @ Exec (revParseCommand tp ref) # rest"
  using trace_adviseRebase_cases[of env s tp ref om msg] by auto

text \<open>
  Claim C7: when the read of the target commit's original message fails, the operation
  is not aborted.  It goes on to run its next command; its overall outcome (the error
  code thrown, or the success flag returned) is the one it has in the environment that
  differs only in that the read succeeds, with any output \<open>out\<close>; and a result it
  returns carries the empty original message.
\<close>

theorem c7_read_failure_not_fatal:
  assumes sp: "sanitizePath env (targetPathArg input wd) True = Inr tp"
    and fails: "exec env w (logCommand tp (commitRefOf input)) = (w1, Inl e)"
  shows "outcome (snd (rewordGitCommit env input wd \<lparr>world = w, trace = t\<rparr>)) =
         outcome (snd (rewordGitCommit
                         (answering env w (logCommand tp (commitRefOf input)) (w1, Inr out))
                         input wd \<lparr>world = w, trace = t\<rparr>)) \<and>
         (case snd (rewordGitCommit env input wd \<lparr>world = w, trace = t\<rparr>) of
            Inl err \<Rightarrow> True | Inr r \<Rightarrow> originalMessage r = Some []) \<and>
         (\<exists>c rest. trace (fst (rewordGitCommit env input wd \<lparr>world = w, trace = t\<rparr>)) =
               t @ Exec (logCommand tp (commitRefOf input)) # Exec c # rest)"
proof -
  let ?ref = "commitRefOf input"
  let ?env' = "answering env w (logCommand tp ?ref) (w1, Inr out)"
  let ?s = "\<lparr>world = w, trace = t\<rparr>"
  let ?s1 = "\<lparr>world = w1, trace = t @ [Exec (logCommand tp ?ref)]\<rparr>"
  have sp': "sanitizePath ?env' (targetPathArg input wd) True = Inr tp"
    using sp by (simp add: fs_answering)
  have failing: "rewordTry env input tp ?s =
      (if ?ref = ''HEAD'' then amendHead env ?s1 tp [] (in_newMessage input)
       else adviseRebase env ?s1 tp ?ref [] (in_newMessage input))"
    using fails by (auto simp add: rewordTry_cases read_failed)
  have answered: "rewordTry ?env' input tp ?s =
      (if ?ref = ''HEAD'' then amendHead env ?s1 tp (trim (stdout out)) (in_newMessage input)
       else adviseRebase env ?s1 tp ?ref (trim (stdout out)) (in_newMessage input))"
    by (auto simp add: rewordTry_cases read_answered amendHead_answering adviseRebase_answering)
  have eq: "snd (rewordTry env input tp ?s) = with_original [] (snd (rewordTry ?env' input tp ?s))"
  proof (cases "?ref = ''HEAD''")
    case True
    then show ?thesis
      unfolding failing answered
      using amendHead_original[of env ?s1 tp "[]" "in_newMessage input" "trim (stdout out)"]
      by simp
  next
    case False
    then show ?thesis
      unfolding failing answered
      using adviseRebase_original[of env ?s1 tp ?ref "[]" "in_newMessage input" "trim (stdout out)"]
      by simp
  qed
  have 1: "outcome (snd (rewordGitCommit env input wd ?s)) =
           outcome (snd (rewordGitCommit ?env' input wd ?s))"
    unfolding snd_rewordGitCommit[OF sp] snd_rewordGitCommit[OF sp'] eq
    by (simp add: with_original_def outcome_def split: sum.splits)
  have 2: "(case snd (rewordGitCommit env input wd ?s) of
              Inl err \<Rightarrow> True | Inr r \<Rightarrow> originalMessage r = Some [])"
    unfolding snd_rewordGitCommit[OF sp] eq
    by (auto simp add: with_original_def split: sum.splits)
  have 3: "\<exists>c rest. trace (fst (rewordGitCommit env input wd ?s)) =
               t @ Exec (logCommand tp ?ref) # Exec c # rest"
  proof (cases "?ref = ''HEAD''")
    case True
    then show ?thesis
      unfolding fst_rewordGitCommit[OF sp] failing
      using trace_amendHead[of env ?s1 tp "[]" "in_newMessage input"]
      by auto
  next
    case False
    then show ?thesis
      unfolding fst_rewordGitCommit[OF sp] failing
      using trace_adviseRebase[of env ?s1 tp ?ref "[]" "in_newMessage input"]
      by auto
  qed
  from 1 2 3 show ?thesis by blast
qed

theorem c7_read_failure_not_fatal_witness:
  "outcome (snd (rewordGitCommit (scripted_env read_fails (Inr ()))
                   (request (Some ''/repo'') None ''new text'') None \<lparr>world = 0, trace = []\<rparr>)) =
   outcome (snd (rewordGitCommit
                   (answering (scripted_env read_fails (Inr ())) 0
                      (logCommand ''/repo'' (commitRefOf (request (Some ''/repo'') None ''new text'')))
                      (0, Inr \<lparr>stdout = ''old text'', stderr = []\<rparr>))
                   (request (Some ''/repo'') None ''new text'') None \<lparr>world = 0, trace = []\<rparr>)) \<and>
   (case snd (rewordGitCommit (scripted_env read_fails (Inr ()))
                (request (Some ''/repo'') None ''new text'') None \<lparr>world = 0, trace = []\<rparr>) of
      Inl err \<Rightarrow> True | Inr r \<Rightarrow> originalMessage r = Some []) \<and>
   (\<exists>c rest. trace (fst (rewordGitCommit (scripted_env read_fails (Inr ()))
                           (request (Some ''/repo'') None ''new text'') None
                           \<lparr>world = 0, trace = []\<rparr>)) =
      [] @ Exec (logCommand ''/repo'' (commitRefOf (request (Some ''/repo'') None ''new text'')))
         # Exec c # rest)"
proof -
  let ?env = "scripted_env read_fails (Inr ())"
  let ?input = "request (Some ''/repo'') None ''new text''"
  have sp: "sanitizePath ?env (targetPathArg ?input None) True = Inr ''/repo''"
    by code_simp
  have fails: "exec ?env 0 (logCommand ''/repo'' (commitRefOf ?input))
                 = (0, Inl (failure ''fatal: bad object'' []))"
    by code_simp
  show ?thesis
    by (rule c7_read_failure_not_fatal[OF sp fails])
qed

section \<open>Error translation\<close>

text \<open>The \<^verbatim>\<open>catch\<close> block reads the first non-empty text among \<^verbatim>\<open>stderr\<close>, \<^verbatim>\<open>stdout\<close>
  and \<^verbatim>\<open>message\<close>, in this order.\<close>

lemma errorMessageOf_priority:
  "errorMessageOf err =
     (if truthy (e_stderr err) then the (e_stderr err)
      else if truthy (e_stdout err) then the (e_stdout err)
      else if truthy (e_message err) then the (e_message err) else [])"
  by (auto simp add: errorMessageOf_def or_string_def js_or_def truthy_def split: option.splits)

text \<open>The test for \<^verbatim>\<open>not a git repository\<close> ignores the letter case.\<close>

lemma not_a_repository_any_case:
  "rewordCatch ''/repo'' (failure ''FATAL: Not A Git Repository'' [])
     = \<lparr>err_code = NOT_FOUND, err_message = ''Path is not a Git repository: /repo''\<rparr>"
  by code_simp

text \<open>
  Claim C5 does not hold of the code: the test for \<^verbatim>\<open>no changes\<close> is made on the text
  as it is, without lowering the case.  An amend that fails with the output
  \<^verbatim>\<open>No changes\<close> is reported with \<^verbatim>\<open>INTERNAL_ERROR\<close>, not with the validation error
  for no changes to commit.
\<close>

theorem c5_no_changes_case_sensitive:
  "snd (rewordGitCommit (scripted_env amend_no_changes (Inr ()))
          (request (Some ''/repo'') None ''new text'') None start)
     = Inl \<lparr>err_code = INTERNAL_ERROR,
            err_message = ''Failed to reword commit. Error: No changes'' @ nl\<rparr>"
  by code_simp

text \<open>When the parent cannot be resolved, the validation error thrown for it is thrown
  inside the \<^verbatim>\<open>try\<close> block, so the \<^verbatim>\<open>catch\<close> block receives it and translates its
  message again.\<close>

lemma parent_unresolved:
  assumes sp: "sanitizePath env (targetPathArg input wd) True = Inr tp"
    and ref: "commitRefOf input \<noteq> ''HEAD''"
    and rd: "exec env (world s) (logCommand tp (commitRefOf input)) = (w1, r1)"
    and parent: "exec env w1 (revParseCommand tp (commitRefOf input)) = (w2, Inl e)"
  shows "snd (rewordGitCommit env input wd s) =
           Inl (rewordCatch tp (thrown_McpError (parentNotFound (commitRefOf input))))"
proof -
  let ?s1 = "fst (readOriginalMessage env s tp (commitRefOf input))"
  have w: "world ?s1 = w1"
    using world_readOriginalMessage[of env s tp "commitRefOf input"] rd by simp
  have "snd (adviseRebase env ?s1 tp (commitRefOf input)
               (snd (readOriginalMessage env s tp (commitRefOf input))) (in_newMessage input))
          = Inl (thrown_McpError (parentNotFound (commitRefOf input)))"
    using parent w by (simp add: adviseRebase_def execAsync_def)
  then show ?thesis
    using ref by (simp add: snd_rewordGitCommit[OF sp] rewordTry_non_tip)
qed

text \<open>
  Claim C6 does not hold of the code: for the reference \<^verbatim>\<open>abc123\<close>, whose parent cannot
  be resolved, the operation fails with \<^verbatim>\<open>INTERNAL_ERROR\<close>.  The validation error the
  code throws for the unresolved parent is caught by the function's own \<^verbatim>\<open>catch\<close> block
  and replaced.
\<close>

theorem c6_parent_failure_internal_error:
  "snd (rewordGitCommit (scripted_env all_fail (Inr ()))
          (request (Some ''/repo'') (Some ''abc123'') ''new text'') None start)
   = Inl \<lparr>err_code = INTERNAL_ERROR,
          err_message = ''Failed to reword commit. Error: Could not find parent commit for abc123. This might be the root commit or an invalid commit hash.''\<rparr>"
  by code_simp

section \<open>Rewording the tip\<close>

text \<open>
  Claim C3 does not hold of the code: the replacement meant to escape double quotes
  replaces each double quote by itself, so the message \<^verbatim>\<open>say "hi"\<close> is put between
  double quotes unchanged, and the command line handed to the shell is
  \<^verbatim>\<open>git -C "/repo" commit --amend -m "say "hi""\<close>.
\<close>

theorem c3_message_not_escaped:
  \<open>sanitizeNewMessage ''say "hi"'' = ''say "hi"'' \<and>
   trace (fst (rewordGitCommit (scripted_env all_succeed (Inr ()))
                 (request (Some ''/repo'') None ''say "hi"'') None start)) ! 1
     = Exec ''git -C "/repo" commit --amend -m "say "hi""''\<close>
  by code_simp

section \<open>The working directory\<close>

text \<open>Inside \<^verbatim>\<open>rewordGitCommit\<close> a non-empty path of the input wins, then a non-empty
  directory of the session, then \<^verbatim>\<open>"."\<close>.\<close>

lemma targetPathArg_precedence:
  "targetPathArg input wd =
     (if truthy (in_path input) then the (in_path input)
      else if truthy wd then the wd else ''.'')"
  by (auto simp add: targetPathArg_def or_string_def js_or_def truthy_def split: option.splits)

text \<open>
  Claim C4 does not hold of the code: for a request without a path the schema fills in
  the default \<^verbatim>\<open>"."\<close> before the logic runs, so the logic never consults the session.
  With the session's working directory \<^verbatim>\<open>/session/repo\<close>, git is run in \<^verbatim>\<open>"."\<close>.
\<close>

theorem c4_session_directory_ignored:
  \<open>GitRewordInputSchema \<lparr>raw_path = None, raw_commitHash = None, raw_newMessage = Some ''new text''\<rparr>
     = Inr (request (Some ''.'') None ''new text'') \<and>
   trace (fst (git_reword_call (scripted_env all_succeed (Inr ())) list_services
                 (\<lambda>sessionId. Some ''/session/repo'') (\<lambda>context. Some ''session-1'')
                 \<lparr>raw_path = None, raw_commitHash = None, raw_newMessage = Some ''new text''\<rparr>
                 () start))
     = [Exec ''git -C "." log -1 --pretty=format:%B HEAD'',
        Exec ''git -C "." commit --amend -m "new text"'',
        Exec ''git -C "." log -1 --pretty=format:%H%n%B'']\<close>
  by code_simp

section \<open>History and commits other than the tip\<close>

text \<open>
  Claim C9 does not hold of the code: the commit reference is put into the command line
  as it is, and the shell runs every command of the line.  For the reference
  \<^verbatim>\<open>HEAD~1; git -C /repo commit --amend -m pwned\<close> both command lines the logic runs
  contain an amend, and two commits are created.
\<close>

theorem c9_reference_runs_amend:
  \<open>fst (rewordGitCommit (scripted_env all_succeed (Inr ()))
          (request (Some ''/repo'') (Some ''HEAD~1; git -C /repo commit --amend -m pwned'')
             ''new text'') None start)
    = \<lparr>world = 2, trace = [
       Exec ''git -C "/repo" log -1 --pretty=format:%B HEAD~1; git -C /repo commit --amend -m pwned'',
       Exec ''git -C "/repo" rev-parse HEAD~1; git -C /repo commit --amend -m pwned^'',
       WriteFile ''/repo/.git-reword-message-0'' ''new text'',
       Unlink ''/repo/.git-reword-message-0'']\<rparr>\<close>
  by code_simp

section \<open>Registration\<close>

text \<open>
  Claim C10: \<^verbatim>\<open>registerGitRewordTool\<close> and \<^verbatim>\<open>registerGitStashTool\<close>, called while an
  accessor of their module is unset, throw the error that names the tool and leave the
  server as it was, without calling \<^verbatim>\<open>server.tool\<close>; called after the module's
  \<^verbatim>\<open>initialize...StateAccessors\<close>, they go on to register the tool with the server.
\<close>

theorem c10_registration_needs_accessors:
  "(v_getWorkingDirectory mr = None \<or> v_getSessionId mr = None \<longrightarrow>
      registerGitRewordTool svc handler mr server =
        (server, Inl (not_initialized ''git_reword''))) \<and>
   (v_getWorkingDirectory ms = None \<or> v_getSessionId ms = None \<longrightarrow>
      registerGitStashTool svc handler ms server =
        (server, Inl (not_initialized ''git_stash''))) \<and>
   registerGitRewordTool svc handler (initializeGitRewordStateAccessors getWdFn getSidFn mr) server
      = register_with svc ''git_reword'' handler server \<and>
   registerGitStashTool svc handler (initializeGitStashStateAccessors getWdFn getSidFn ms) server
      = register_with svc ''git_stash'' handler server"
  by (simp add: registerGitRewordTool_def registerGitStashTool_def
      initializeGitRewordStateAccessors_def initializeGitStashStateAccessors_def)

theorem c10_registration_needs_accessors_witness:
  "registerGitRewordTool list_services () accessors_at_load []
     = ([], Inl (not_initialized ''git_reword'')) \<and>
   registerGitStashTool list_services () accessors_at_load []
     = ([], Inl (not_initialized ''git_stash'')) \<and>
   registerGitRewordTool list_services ()
      (initializeGitRewordStateAccessors (\<lambda>sessionId. None) (\<lambda>context. None) accessors_at_load) []
     = ([''git_reword''], Inr ()) \<and>
   registerGitStashTool list_services ()
      (initializeGitStashStateAccessors (\<lambda>sessionId. None) (\<lambda>context. None) accessors_at_load) []
     = ([''git_stash''], Inr ())"
  using c10_registration_needs_accessors[of accessors_at_load list_services "()" "[]"
      accessors_at_load "\<lambda>sessionId. None" "\<lambda>context. None"]
  by (simp add: accessors_at_load_def register_with_def list_services_def)

section \<open>The stash tool handler\<close>

text \<open>The handler returns whatever result the stash logic returns as content, an
  unsuccessful result included; only an error the logic throws becomes a failure.\<close>

lemma gitStashToolHandler_passes_result:
  "snd (gitStashToolHandler (\<lambda>toolInput wd s. (s, Inr r)) svc getWd getSid toolInput callContext s)
     = Inr (Content r)"
  by (simp add: gitStashToolHandler_def Let_def)

end
